theory Spec2Isabelle
  imports Complex_Main "HOL-Library.AList"
begin

section \<open>Python values, classes and instances\<close>

text \<open>
  The configuration layer of \<^verbatim>\<open>hezar/configs.py\<close> is reflective Python: what a call
  does depends on the class of \<^verbatim>\<open>self\<close>, on the names its class body declares and on
  the instance dictionary. The embedding therefore carries a small object model.

  A class is its \<^verbatim>\<open>__name__\<close>, its direct base (\<open>None\<close>: the class derives from
  \<^verbatim>\<open>object\<close> directly; the source uses single inheritance only) and its body in
  source order. A body entry is an annotated dataclass field with its default (every
  field of the repository declares one), an un-annotated class variable, a method, or a
  read-only property. An instance is its class and its \<^verbatim>\<open>__dict__\<close>; a Python
  \<^verbatim>\<open>dict\<close> is an association list in insertion order.
\<close>

datatype py_error =
    KeyError | AttributeError | TypeError | EnvironmentError
  | FileNotFoundError | FileExistsError | IsADirectoryError
  | TransportError | RegistryLookupError

datatype getter = Name_getter | Config_type_getter | Class_slot | Dict_slot | Weakref_slot

datatype val =
    VNone | VBool bool | VInt int | VFloat real | VStr string
  | VList "val list"
  | VDict "(string \<times> val) list"
  | VObj pyclass "(string \<times> val) list"
  | VOpaque string
and member = Field val | ClassVar val | Method | Property getter
and pyclass =
  PyClass (cname: string) (base: "pyclass option") (body: "(string \<times> member) list")

type_synonym pydict = "(string \<times> val) list"

record pyobj =
  icls :: pyclass
  idict :: pydict

datatype warning =
    Base_class_warning string string
  | Not_config_parameter string string

subsection \<open>Dictionaries and strings\<close>

text \<open>
  \<^verbatim>\<open>d.update(other)\<close> assigns the items of \<^verbatim>\<open>other\<close> in order; an assignment to a
  key already present keeps the key's position. \<^verbatim>\<open>d[k]\<close> raises \<^verbatim>\<open>KeyError\<close> on a
  missing key.
\<close>

definition dict_update :: "pydict \<Rightarrow> pydict \<Rightarrow> pydict" where
  "dict_update d other = fold (\<lambda>(k, v). AList.update k v) other d"

definition dict_getitem :: "pydict \<Rightarrow> string \<Rightarrow> py_error + val" where
  "dict_getitem d k = (case map_of d k of None \<Rightarrow> Inl KeyError | Some v \<Rightarrow> Inr v)"

text \<open>
  \<^verbatim>\<open>s.replace(old, new)\<close> for a non-empty \<^verbatim>\<open>old\<close>: the non-overlapping occurrences,
  left to right. \<^verbatim>\<open>s.lower()\<close> on ASCII letters, which is what class names and the
  category names are made of.
\<close>

function str_replace :: "string \<Rightarrow> string \<Rightarrow> string \<Rightarrow> string" where
  "str_replace old new s =
     (if s = [] \<or> old = [] then s
      else if take (length old) s = old
        then new @ str_replace old new (drop (length old) s)
      else hd s # str_replace old new (tl s))"
  by pat_completeness auto
termination
  by (relation "measure (\<lambda>(old, new, s). length s)") auto

definition lower_char :: "char \<Rightarrow> char" where
  "lower_char c =
     (case map_of (zip ''ABCDEFGHIJKLMNOPQRSTUVWXYZ'' ''abcdefghijklmnopqrstuvwxyz'') c of
        Some l \<Rightarrow> l
      | None \<Rightarrow> c)"

definition lower :: "string \<Rightarrow> string" where
  "lower s = map lower_char s"

definition or_str :: "string option \<Rightarrow> string \<Rightarrow> string" where
  \<comment> \<open>\<^verbatim>\<open>x or dflt\<close> for an optional string: \<^verbatim>\<open>None\<close> and \<^verbatim>\<open>""\<close> are falsy.\<close>
  "or_str x dflt = (case x of None \<Rightarrow> dflt | Some s \<Rightarrow> if s = [] then dflt else s)"

subsection \<open>Class namespaces\<close>

text \<open>
  The names every class inherits from \<^verbatim>\<open>object\<close>. \<^verbatim>\<open>__class__\<close>, \<^verbatim>\<open>__dict__\<close> and
  \<^verbatim>\<open>__weakref__\<close> are data descriptors of the interpreter: assigning a configuration
  value to them fails.
\<close>

definition object_body :: "(string \<times> member) list" where
  "object_body =
     [(''__class__'', Property Class_slot),
      (''__dict__'', Property Dict_slot),
      (''__weakref__'', Property Weakref_slot),
      (''__init__'', Method), (''__new__'', Method), (''__repr__'', Method),
      (''__str__'', Method), (''__eq__'', Method), (''__ne__'', Method),
      (''__lt__'', Method), (''__le__'', Method), (''__gt__'', Method),
      (''__ge__'', Method), (''__hash__'', Method), (''__format__'', Method),
      (''__getattribute__'', Method), (''__setattr__'', Method),
      (''__delattr__'', Method), (''__dir__'', Method), (''__sizeof__'', Method),
      (''__reduce__'', Method), (''__reduce_ex__'', Method),
      (''__init_subclass__'', Method), (''__subclasshook__'', Method),
      (''__doc__'', ClassVar VNone), (''__module__'', ClassVar VNone)]"

text \<open>Attribute lookup on the type: the first class of the MRO whose body has the name.\<close>

fun class_attr :: "pyclass \<Rightarrow> string \<Rightarrow> member option" where
  "class_attr (PyClass n b ms) k =
     (case map_of ms k of
        Some m \<Rightarrow> Some m
      | None \<Rightarrow> (case b of None \<Rightarrow> map_of object_body k | Some p \<Rightarrow> class_attr p k))"

definition mro1_name :: "pyclass \<Rightarrow> string" where
  \<comment> \<open>\<^verbatim>\<open>cls.__mro__[1].__name__\<close>\<close>
  "mro1_name c = (case base c of None \<Rightarrow> ''object'' | Some p \<Rightarrow> cname p)"

text \<open>
  \<^verbatim>\<open>dataclasses.fields\<close>: the fields of the bases first, then the annotated names of
  the class body; a redeclared field keeps its position and takes the new default.
\<close>

fun own_fields :: "(string \<times> member) list \<Rightarrow> pydict" where
  "own_fields [] = []"
| "own_fields ((k, Field d) # ms) = (k, d) # own_fields ms"
| "own_fields (_ # ms) = own_fields ms"

fun dataclass_fields :: "pyclass \<Rightarrow> pydict" where
  "dataclass_fields (PyClass n b ms) =
     dict_update (case b of None \<Rightarrow> [] | Some p \<Rightarrow> dataclass_fields p) (own_fields ms)"

text \<open>
  \<^verbatim>\<open>cls.__annotations__\<close> as an instance sees it: a class body with annotations has its
  own \<^verbatim>\<open>__annotations__\<close>, holding the names annotated in that body only; a body
  without annotations has none, and the lookup goes on along the MRO. When no class of
  the MRO has annotations the attribute does not exist.
\<close>

fun class_annotations :: "pyclass \<Rightarrow> string list option" where
  "class_annotations (PyClass n b ms) =
     (if own_fields ms \<noteq> [] then Some (map fst (own_fields ms))
      else (case b of None \<Rightarrow> None | Some p \<Rightarrow> class_annotations p))"

definition self_annotations :: "pyobj \<Rightarrow> py_error + string list" where
  \<comment> \<open>\<^verbatim>\<open>self.__annotations__.keys()\<close>: the instance dictionary first, then the classes.\<close>
  "self_annotations self =
     (case map_of (idict self) ''__annotations__'' of
        Some (VDict d) \<Rightarrow> Inr (map fst d)
      | Some _ \<Rightarrow> Inl AttributeError
      | None \<Rightarrow>
          (case class_annotations (icls self) of
             None \<Rightarrow> Inl AttributeError
           | Some anns \<Rightarrow> Inr anns))"

text \<open>
  \<^verbatim>\<open>hasattr(cls, k)\<close>: a name found along the MRO, or one the metaclass \<^verbatim>\<open>type\<close>
  provides.
\<close>

definition type_attrs :: "string list" where
  "type_attrs =
     [''__name__'', ''__qualname__'', ''__mro__'', ''__bases__'', ''__base__'',
      ''__basicsize__'', ''__itemsize__'', ''__flags__'', ''__dictoffset__'',
      ''__weakrefoffset__'', ''__text_signature__'', ''__call__'',
      ''__instancecheck__'', ''__subclasscheck__'', ''__subclasses__'',
      ''__prepare__'', ''mro'']"

definition hasattr :: "pyclass \<Rightarrow> string \<Rightarrow> bool" where
  "hasattr cls k =
     (class_attr cls k \<noteq> None \<or> k \<in> set type_attrs \<or>
      (k = ''__annotations__'' \<and> class_annotations cls \<noteq> None))"

text \<open>
  \<^verbatim>\<open>setattr(self, k, v)\<close>. A property without a setter refuses the assignment, and so
  does \<^verbatim>\<open>__weakref__\<close>. \<^verbatim>\<open>__dict__\<close> takes a dictionary, which becomes the instance
  dictionary, and refuses anything else. \<^verbatim>\<open>__class__\<close> takes a class only, and no value
  of the model is a class. Any other name is stored in the instance dictionary.
\<close>

definition setattr :: "pyobj \<Rightarrow> string \<Rightarrow> val \<Rightarrow> py_error + pyobj" where
  "setattr self k v =
     (case class_attr (icls self) k of
        Some (Property Dict_slot) \<Rightarrow>
          (case v of VDict d \<Rightarrow> Inr (self\<lparr>idict := d\<rparr>) | _ \<Rightarrow> Inl TypeError)
      | Some (Property Class_slot) \<Rightarrow> Inl TypeError
      | Some (Property _) \<Rightarrow> Inl AttributeError
      | _ \<Rightarrow> Inr (self\<lparr>idict := AList.update k v (idict self)\<rparr>))"

text \<open>
  The \<^verbatim>\<open>__init__\<close> that \<^verbatim>\<open>@dataclass\<close> generates: a keyword that is no field is a
  \<^verbatim>\<open>TypeError\<close>; otherwise each field, in order, is assigned the keyword's value or
  the field's default.
\<close>

definition dataclass_init :: "pyclass \<Rightarrow> pydict \<Rightarrow> py_error + pyobj" where
  "dataclass_init cls kw =
     (if list_ex (\<lambda>k. k \<notin> set (map fst (dataclass_fields cls))) (map fst kw) then Inl TypeError
      else fold
        (\<lambda>(f, d) r.
           case r of
             Inl e \<Rightarrow> Inl e
           | Inr self \<Rightarrow> setattr self f (case map_of kw f of Some v \<Rightarrow> v | None \<Rightarrow> d))
        (dataclass_fields cls)
        (Inr \<lparr>icls = cls, idict = []\<rparr>))"

text \<open>
  The value of a field of an instance, as \<^verbatim>\<open>getattr\<close> reads it: the entry of the
  instance dictionary, or else the class attribute of that name. The generated
  \<^verbatim>\<open>__init__\<close> assigns every field, so no instance exists of a class on which a field
  name finds a property; for such a name the declared default stands.
\<close>

definition field_items :: "pyclass \<Rightarrow> pydict \<Rightarrow> pydict" where
  "field_items c d =
     map (\<lambda>(f, dflt).
            (f, case map_of d f of
                  Some v \<Rightarrow> v
                | None \<Rightarrow>
                    (case class_attr c f of
                       Some (Field x) \<Rightarrow> x
                     | Some (ClassVar x) \<Rightarrow> x
                     | Some Method \<Rightarrow> VOpaque f
                     | _ \<Rightarrow> dflt)))
       (dataclass_fields c)"

lemma size_map_of:
  "map_of d k = Some v \<Longrightarrow> size v \<le> size_list (size_prod (\<lambda>x. 0) size) d"
  by (induction d) (auto split: if_splits)

lemma size_body_member:
  "map_of ms k = Some m \<Longrightarrow> size m \<le> size_list (size_prod (\<lambda>x. 0) size) ms"
  by (induction ms) (auto split: if_splits)

lemma size_class_attr:
  "class_attr c k = Some (Field x) \<or> class_attr c k = Some (ClassVar x) \<Longrightarrow> size x < size c"
proof (induction c k rule: class_attr.induct)
  case (1 n b ms k)
  show ?case
  proof (cases "map_of ms k")
    case (Some m)
    with "1.prems" have "m = Field x \<or> m = ClassVar x"
      by auto
    with size_body_member [OF Some] show ?thesis
      by auto
  next
    case None
    show ?thesis
    proof (cases b)
      case None
      with \<open>map_of ms k = None\<close> "1.prems" have "map_of object_body k = Some (Field x) \<or> map_of object_body k = Some (ClassVar x)"
        by simp
      then have "(k, Field x) \<in> set object_body \<or> (k, ClassVar x) \<in> set object_body"
        by (auto dest: map_of_SomeD)
      then have "x = VNone"
        by (auto simp: object_body_def)
      then show ?thesis
        by simp
    next
      case (Some p)
      with \<open>map_of ms k = None\<close> "1.prems" "1.IH" have "size x < size p"
        by simp
      with Some show ?thesis
        by simp
    qed
  qed
qed

lemma size_own_fields:
  "(f, x) \<in> set (own_fields ms) \<Longrightarrow> size x < Suc (size_list (size_prod (\<lambda>x. 0) size) ms)"
  by (induction ms rule: own_fields.induct) auto

lemma set_dict_update:
  "set (dict_update d kw) \<subseteq> set d \<union> set kw"
proof (induction kw arbitrary: d)
  case Nil
  then show ?case by (simp add: dict_update_def)
next
  case (Cons x kw)
  have "dict_update d (x # kw) = dict_update (AList.update (fst x) (snd x) d) kw"
    by (simp add: dict_update_def case_prod_beta)
  moreover have "set (AList.update j w d) \<subseteq> insert (j, w) (set d)" for j w
    by (induction d) auto
  ultimately show ?case
    using Cons.IH [of "AList.update (fst x) (snd x) d"] by fastforce
qed

lemma size_dataclass_fields:
  "(f, x) \<in> set (dataclass_fields c) \<Longrightarrow> size x < size c"
proof (induction c rule: dataclass_fields.induct)
  case (1 n b ms)
  have "set (dataclass_fields (PyClass n b ms))
          \<subseteq> set (case b of None \<Rightarrow> [] | Some p \<Rightarrow> dataclass_fields p) \<union> set (own_fields ms)"
    unfolding dataclass_fields.simps by (rule set_dict_update)
  with "1.prems"
  have "(f, x) \<in> set (case b of None \<Rightarrow> [] | Some p \<Rightarrow> dataclass_fields p) \<or> (f, x) \<in> set (own_fields ms)"
    by blast
  then show ?case
  proof
    assume a: "(f, x) \<in> set (case b of None \<Rightarrow> [] | Some p \<Rightarrow> dataclass_fields p)"
    then obtain p where p: "b = Some p"
      by (cases b) auto
    with a have "(f, x) \<in> set (dataclass_fields p)"
      by simp
    with p have "size x < size p"
      by (rule "1.IH")
    with p show ?thesis
      by simp
  next
    assume "(f, x) \<in> set (own_fields ms)"
    then have "size x < Suc (size_list (size_prod (\<lambda>x. 0) size) ms)"
      by (rule size_own_fields)
    then show ?thesis
      by simp
  qed
qed

lemma size_field_items:
  "(k, v) \<in> set (field_items c d) \<Longrightarrow>
   size v < Suc (size_list (size_prod (\<lambda>x. 0) size) d + size c)"
proof -
  assume "(k, v) \<in> set (field_items c d)"
  then obtain dflt where f: "(k, dflt) \<in> set (dataclass_fields c)"
    and v: "v = (case map_of d k of
                  Some v \<Rightarrow> v
                | None \<Rightarrow>
                    (case class_attr c k of
                       Some (Field x) \<Rightarrow> x
                     | Some (ClassVar x) \<Rightarrow> x
                     | Some Method \<Rightarrow> VOpaque k
                     | _ \<Rightarrow> dflt))"
    by (auto simp: field_items_def)
  have dflt: "size dflt < size c"
    using f by (rule size_dataclass_fields)
  show ?thesis
  proof (cases "map_of d k")
    case (Some w)
    with v size_map_of [OF Some] show ?thesis
      by simp
  next
    case None
    have "size v < Suc (size c)"
    proof (cases "class_attr c k")
      case None
      with v \<open>map_of d k = None\<close> dflt show ?thesis
        by simp
    next
      case (Some m)
      show ?thesis
      proof (cases m)
        case (Field x)
        with Some have "size x < size c"
          by (intro size_class_attr [of c k x]) simp
        with v \<open>map_of d k = None\<close> Some Field show ?thesis
          by simp
      next
        case (ClassVar x)
        with Some have "size x < size c"
          by (intro size_class_attr [of c k x]) simp
        with v \<open>map_of d k = None\<close> Some ClassVar show ?thesis
          by simp
      next
        case Method
        with v \<open>map_of d k = None\<close> Some show ?thesis
          by simp
      next
        case (Property g)
        with v \<open>map_of d k = None\<close> Some dflt show ?thesis
          by simp
      qed
    qed
    then show ?thesis
      by simp
  qed
qed

text \<open>
  \<^verbatim>\<open>dataclasses.asdict\<close>: a dataclass instance becomes the dictionary of its fields, in
  field order, recursively through lists and dictionaries; anything else is copied.
\<close>

function asdict_inner :: "val \<Rightarrow> val" where
  "asdict_inner (VObj c d) = VDict (map (\<lambda>(k, v). (k, asdict_inner v)) (field_items c d))"
| "asdict_inner (VList vs) = VList (map asdict_inner vs)"
| "asdict_inner (VDict d) = VDict (map (\<lambda>(k, v). (k, asdict_inner v)) d)"
| "asdict_inner VNone = VNone"
| "asdict_inner (VBool b) = VBool b"
| "asdict_inner (VInt i) = VInt i"
| "asdict_inner (VFloat r) = VFloat r"
| "asdict_inner (VStr s) = VStr s"
| "asdict_inner (VOpaque s) = VOpaque s"
  by pat_completeness auto
termination
proof (relation "measure size")
  show "wf (measure (size :: val \<Rightarrow> nat))"
    by simp
next
  fix c :: pyclass and d :: pydict and x :: "string \<times> val" and k :: string and v :: val
  assume "x \<in> set (field_items c d)" and "(k, v) = x"
  then have "(k, v) \<in> set (field_items c d)"
    by simp
  then show "(v, VObj c d) \<in> measure size"
    using size_field_items by fastforce
next
  fix vs :: "val list" and v :: val
  assume "v \<in> set vs"
  then have "size v < Suc (size_list size vs)"
    by (induction vs) auto
  then show "(v, VList vs) \<in> measure size"
    by simp
next
  fix d :: pydict and x :: "string \<times> val" and k :: string and v :: val
  assume "x \<in> set d" and "(k, v) = x"
  then have "(k, v) \<in> set d"
    by simp
  then have "size v < Suc (size_list (size_prod (\<lambda>x. 0) size) d)"
    by (induction d) auto
  then show "(v, VDict d) \<in> measure size"
    by simp
qed

section \<open>The configuration classes of the source\<close>

text \<open>
  Modelled from the spec: \<^verbatim>\<open>ConfigType\<close> is imported from \<^verbatim>\<open>hezar/constants.py\<close>, which
  is not among the sources. The spec gives it as a fixed enumeration of category tags
  (base, model, preprocessor, trainer, dataset, embedding, criterion, optimizer,
  lr_scheduler, metric); the source applies \<^verbatim>\<open>str\<close> methods to its members, so a member
  is its tag.
\<close>

datatype ConfigType =
    BASE | MODEL | PREPROCESSOR | TRAINER | DATASET | EMBEDDING
  | CRITERION | OPTIMIZER | LR_SCHEDULER | METRIC

fun ConfigType_value :: "ConfigType \<Rightarrow> string" where
  "ConfigType_value BASE = ''base''"
| "ConfigType_value MODEL = ''model''"
| "ConfigType_value PREPROCESSOR = ''preprocessor''"
| "ConfigType_value TRAINER = ''trainer''"
| "ConfigType_value DATASET = ''dataset''"
| "ConfigType_value EMBEDDING = ''embedding''"
| "ConfigType_value CRITERION = ''criterion''"
| "ConfigType_value OPTIMIZER = ''optimizer''"
| "ConfigType_value LR_SCHEDULER = ''lr_scheduler''"
| "ConfigType_value METRIC = ''metric''"

definition CONFIG_TYPES_MAPPING :: "(string \<times> ConfigType) list" where
  "CONFIG_TYPES_MAPPING =
     [(''Config'', BASE),
      (''ModelConfig'', MODEL),
      (''PreprocessorConfig'', PREPROCESSOR),
      (''TrainerConfig'', TRAINER),
      (''DatasetConfig'', DATASET),
      (''EmbeddingConfig'', EMBEDDING),
      (''CriterionConfig'', CRITERION),
      (''OptimizerConfig'', OPTIMIZER),
      (''LRSchedulerConfig'', LR_SCHEDULER),
      (''MetricConfig'', METRIC)]"

text \<open>
  The class bodies, in source order. \<^verbatim>\<open>Config\<close> declares no field; \<^verbatim>\<open>name\<close> and
  \<^verbatim>\<open>config_type\<close> are properties without a setter. \<^verbatim>\<open>@dataclass\<close> adds
  \<^verbatim>\<open>__dataclass_fields__\<close>, \<^verbatim>\<open>__dataclass_params__\<close> and the generated methods, whose
  names \<^verbatim>\<open>object\<close> has already.
\<close>

definition Config :: pyclass where
  "Config = PyClass ''Config'' None
     [(''name'', Property Name_getter),
      (''config_type'', Property Config_type_getter),
      (''__getitem__'', Method), (''__len__'', Method), (''__iter__'', Method),
      (''dict'', Method), (''keys'', Method), (''get'', Method), (''update'', Method),
      (''load'', Method), (''from_dict'', Method), (''save'', Method),
      (''push_to_hub'', Method),
      (''__dataclass_fields__'', Method), (''__dataclass_params__'', Method)]"

definition ModelConfig :: pyclass where
  "ModelConfig = PyClass ''ModelConfig'' (Some Config) []"

definition PreprocessorConfig :: pyclass where
  "PreprocessorConfig = PyClass ''PreprocessorConfig'' (Some Config) []"

definition DatasetConfig :: pyclass where
  "DatasetConfig = PyClass ''DatasetConfig'' (Some Config) [(''task'', Field VNone)]"

definition EmbeddingConfig :: pyclass where
  "EmbeddingConfig = PyClass ''EmbeddingConfig'' (Some Config) []"

definition CriterionConfig :: pyclass where
  "CriterionConfig = PyClass ''CriterionConfig'' (Some Config)
     [(''weight'', Field VNone),
      (''reduce'', Field VNone),
      (''ignore_index'', Field (VInt (- 100)))]"



definition MetricConfig :: pyclass where
  "MetricConfig = PyClass ''MetricConfig'' (Some Config) []"

definition TrainerConfig :: pyclass where
  "TrainerConfig = PyClass ''TrainerConfig'' (Some Config)
     [(''task'', Field VNone),
      (''device'', Field (VStr ''cuda'')),
      (''init_weights_from'', Field VNone),
      (''dataset_config'', Field VNone),
      (''num_dataloader_workers'', Field (VInt 0)),
      (''seed'', Field (VInt 42)),
      (''optimizer'', Field VNone),
      (''batch_size'', Field VNone),
      (''use_amp'', Field (VBool False)),
      (''metrics'', Field VNone),
      (''num_epochs'', Field VNone),
      (''save_freq'', Field (VInt 1)),
      (''checkpoints_dir'', Field VNone),
      (''log_dir'', Field VNone)]"

text \<open>
  The tokenizer configurations of \<^verbatim>\<open>preprocessors/tokenizers/bpe.py\<close>. Their bases
  \<^verbatim>\<open>TokenizerTrainConfig\<close> and \<^verbatim>\<open>TokenizerConfig\<close> are declared in a module that is not
  among the sources, so each class takes its base as a parameter. The default of
  \<^verbatim>\<open>train_config\<close> is the instance \<^verbatim>\<open>BPETrainConfig()\<close>, every field at its default.
\<close>

definition BPETrainConfig :: "pyclass \<Rightarrow> pyclass" where
  "BPETrainConfig TokenizerTrainConfig = PyClass ''BPETrainConfig'' (Some TokenizerTrainConfig)
     [(''name'', Field (VStr ''bpe_tokenizer'')),
      (''vocab_size'', Field (VInt 30000)),
      (''min_frequency'', Field (VInt 2)),
      (''limit_alphabet'', Field (VInt 1000)),
      (''initial_alphabet'', ClassVar (VList [])),
      (''show_progress'', Field (VBool True))]"

definition BPEConfig :: "pyclass \<Rightarrow> pyclass \<Rightarrow> pyclass" where
  "BPEConfig TokenizerConfig TokenizerTrainConfig = PyClass ''BPEConfig'' (Some TokenizerConfig)
     [(''name'', Field (VStr ''bpe_tokenizer'')),
      (''truncation_strategy'', Field (VStr ''no_truncation'')),
      (''padding_strategy'', Field (VStr ''no_padding'')),
      (''special_tokens'', ClassVar (VList
         [VStr ''<s>'', VStr ''<pad>'', VStr ''</s>'', VStr ''<unk>'', VStr ''<mask>'',
          VStr ''<|endoftext|>'', VStr ''<|startoftext|>'', VStr ''<nl>'', VStr ''<hs>'',
          VStr ''<sep>'', VStr ''<cls>''])),
      (''unk_token'', Field VNone),
      (''pad_token_id'', ClassVar (VInt 0)),
      (''pad_token'', ClassVar (VStr ''<pad>'')),
      (''dropout'', Field VNone),
      (''continuing_subword_prefix'', Field (VStr [])),
      (''end_of_word_suffix'', Field (VStr [])),
      (''fuse_unk'', Field (VBool False)),
      (''train_config'', Field (VObj (BPETrainConfig TokenizerTrainConfig)
         (dataclass_fields (BPETrainConfig TokenizerTrainConfig))))]"

section \<open>The operations of \<^verbatim>\<open>Config\<close>\<close>

subsection \<open>The derived properties\<close>

text \<open>
  \<^verbatim>\<open>Config.name\<close>. \<^verbatim>\<open>snake_case\<close> is imported from \<^verbatim>\<open>utils/common_utils.py\<close>, which is
  not among the sources: it is a parameter.
\<close>

definition name :: "(string \<Rightarrow> string) \<Rightarrow> pyobj \<Rightarrow> string" where
  "name snake_case self =
     (let name = snake_case (str_replace ''Config'' [] (cname (icls self)))
      in if name = [] then ''base'' else name)"

text \<open>
  \<^verbatim>\<open>Config.config_type\<close>, with the warnings it logs. Both subscripts of
  \<^verbatim>\<open>CONFIG_TYPES_MAPPING\<close> raise \<^verbatim>\<open>KeyError\<close> on a missing name.
\<close>

definition config_type :: "pyobj \<Rightarrow> warning list \<times> (py_error + string)" where
  "config_type self =
     (let parent_class = mro1_name (icls self) in
      case map_of CONFIG_TYPES_MAPPING parent_class of
        None \<Rightarrow> ([], Inl KeyError)
      | Some config_type \<Rightarrow>
          if config_type = BASE \<and> map_of CONFIG_TYPES_MAPPING (cname (icls self)) = None
          then
            (let config_type = lower (str_replace ''Config'' [] (cname (icls self)))
             in ([Base_class_warning (cname (icls self)) config_type], Inr config_type))
          else
            (case map_of CONFIG_TYPES_MAPPING (cname (icls self)) of
               None \<Rightarrow> ([], Inl KeyError)
             | Some t \<Rightarrow> ([], Inr (lower (str_replace ''Config'' [] (ConfigType_value t))))))"

text \<open>
  Attribute access \<^verbatim>\<open>self.k\<close>: a property found on the type runs its getter; otherwise
  the instance dictionary, then the class attribute.
\<close>

definition getattr ::
  "(string \<Rightarrow> string) \<Rightarrow> pyobj \<Rightarrow> string \<Rightarrow> warning list \<times> (py_error + val)" where
  "getattr snake_case self k =
     (case class_attr (icls self) k of
        Some (Property Name_getter) \<Rightarrow> ([], Inr (VStr (name snake_case self)))
      | Some (Property Config_type_getter) \<Rightarrow>
          (case config_type self of (w, r) \<Rightarrow> (w, map_sum id VStr r))
      | Some (Property Class_slot) \<Rightarrow> ([], Inr (VOpaque k))
      | Some (Property Dict_slot) \<Rightarrow> ([], Inr (VDict (idict self)))
      | Some (Property Weakref_slot) \<Rightarrow> ([], Inr VNone)
      | m \<Rightarrow>
          (case map_of (idict self) k of
             Some v \<Rightarrow> ([], Inr v)
           | None \<Rightarrow>
               (case m of
                  Some (Field d) \<Rightarrow> ([], Inr d)
                | Some (ClassVar v) \<Rightarrow> ([], Inr v)
                | Some Method \<Rightarrow> ([], Inr (VOpaque k))
                | _ \<Rightarrow> ([], Inl AttributeError))))"

subsection \<open>Mapping access\<close>

definition dict :: "pyobj \<Rightarrow> pydict" where
  \<comment> \<open>\<^verbatim>\<open>asdict(self)\<close>\<close>
  "dict self = map (\<lambda>(k, v). (k, asdict_inner v)) (field_items (icls self) (idict self))"


definition getitem :: "pyobj \<Rightarrow> string \<Rightarrow> py_error + val" where
  \<comment> \<open>\<^verbatim>\<open>__getitem__\<close>: the \<^verbatim>\<open>KeyError\<close> of the subscript becomes an \<^verbatim>\<open>AttributeError\<close>.\<close>
  "getitem self item =
     (case dict_getitem (dict self) item of
        Inr v \<Rightarrow> Inr v
      | Inl e \<Rightarrow> (if e = KeyError then Inl AttributeError else Inl e))"


subsection \<open>\<^verbatim>\<open>update\<close>\<close>

text \<open>
  \<^verbatim>\<open>update\<close> first merges the keyword arguments into the caller's dictionary, then walks
  its items. The outcome records the caller's dictionary, the instance and the log as
  they stand when the call ends, and what the call did: it returned \<^verbatim>\<open>self\<close>, or raised.
\<close>

record update_outcome =
  d_after :: pydict
  self_after :: pyobj
  logged :: "warning list"
  raised :: "py_error option"

fun update_items :: "pyobj \<Rightarrow> pydict \<Rightarrow> warning list \<Rightarrow> pyobj \<times> warning list \<times> py_error option" where
  "update_items self [] ws = (self, ws, None)"
| "update_items self ((k, v) # items) ws =
     (case self_annotations self of
        Inl e \<Rightarrow> (self, ws, Some e)
      | Inr anns \<Rightarrow>
          (let ws' = (if k \<notin> set anns
                       then ws @ [Not_config_parameter (cname (icls self)) k]
                       else ws)
           in case setattr self k v of
                Inl e \<Rightarrow> (self, ws', Some e)
              | Inr self' \<Rightarrow> update_items self' items ws'))"

definition update :: "pyobj \<Rightarrow> pydict \<Rightarrow> pydict \<Rightarrow> update_outcome" where
  "update self d kwargs =
     (let d' = dict_update d kwargs in
      case update_items self d' [] of
        (self', ws, e) \<Rightarrow> \<lparr>d_after = d', self_after = self', logged = ws, raised = e\<rparr>)"

subsection \<open>\<^verbatim>\<open>from_dict\<close>\<close>

text \<open>
  \<^verbatim>\<open>from_dict\<close> merges the keyword arguments into the given dictionary, keeps the items
  whose key \<^verbatim>\<open>hasattr(cls, k)\<close> accepts and calls the constructor with them. The result
  is the dictionary as the call leaves it, and the instance or the error.
\<close>

definition from_dict :: "pyclass \<Rightarrow> pydict \<Rightarrow> pydict \<Rightarrow> pydict \<times> (py_error + pyobj)" where
  "from_dict cls dict_config kwargs =
     (let dict_config' = dict_update dict_config kwargs
      in (dict_config', dataclass_init cls (filter (\<lambda>(k, v). hasattr cls k) dict_config')))"

subsection \<open>The file system, \<^verbatim>\<open>save\<close> and \<^verbatim>\<open>load\<close>\<close>

text \<open>
  The file system as these operations see it: which paths are directories, and which
  paths are files holding which document. Paths are compared as written. A document
  written by \<^verbatim>\<open>OmegaConf.save\<close> is read back by \<^verbatim>\<open>OmegaConf.load\<close> as the same mapping.
\<close>

record filesystem =
  dirs :: "string list"
  files :: "(string \<times> pydict) list"

definition isdir :: "filesystem \<Rightarrow> string \<Rightarrow> bool" where
  "isdir fs p = (p \<in> set (dirs fs))"

definition isfile :: "filesystem \<Rightarrow> string \<Rightarrow> bool" where
  "isfile fs p = (map_of (files fs) p \<noteq> None)"

text \<open>\<^verbatim>\<open>os.path.join\<close> (POSIX): a component that starts with a slash restarts the path.\<close>

fun os_path_join :: "string \<Rightarrow> string list \<Rightarrow> string" where
  "os_path_join path [] = path"
| "os_path_join path (b # p) =
     os_path_join
       (if b \<noteq> [] \<and> hd b = CHR ''/'' then b
        else if path = [] \<or> last path = CHR ''/'' then path @ b
        else path @ ''/'' @ b)
       p"

definition isabs :: "string \<Rightarrow> bool" where
  \<comment> \<open>\<^verbatim>\<open>os.path.isabs\<close>\<close>
  "isabs p = (p \<noteq> [] \<and> hd p = CHR ''/'')"

text \<open>
  \<^verbatim>\<open>os.makedirs(p, exist_ok=True)\<close>: the empty path does not exist; an existing directory
  is accepted; a file in the way is an error.
\<close>

definition makedirs :: "filesystem \<Rightarrow> string \<Rightarrow> py_error + filesystem" where
  "makedirs fs p =
     (if p = [] then Inl FileNotFoundError
      else if isdir fs p then Inr fs
      else if isfile fs p then Inl FileExistsError
      else Inr (fs\<lparr>dirs := p # dirs fs\<rparr>))"

definition omegaconf_save :: "filesystem \<Rightarrow> pydict \<Rightarrow> string \<Rightarrow> py_error + filesystem" where
  "omegaconf_save fs config p =
     (if isdir fs p then Inl IsADirectoryError
      else Inr (fs\<lparr>files := AList.update p config (files fs)\<rparr>))"

definition omegaconf_load :: "filesystem \<Rightarrow> string \<Rightarrow> py_error + pydict" where
  "omegaconf_load fs p =
     (case map_of (files fs) p of None \<Rightarrow> Inl FileNotFoundError | Some config \<Rightarrow> Inr config)"

text \<open>\<^verbatim>\<open>save\<close>: the file system as the call leaves it, and the returned path or the error.\<close>

definition save ::
  "pyobj \<Rightarrow> filesystem \<Rightarrow> string \<Rightarrow> string \<Rightarrow> string option \<Rightarrow> filesystem \<times> (py_error + string)" where
  "save self fs save_dir filename subfolder =
     (let subfolder' = or_str subfolder [];
          config = filter (\<lambda>(k, v). v \<noteq> VNone) (dict self)
      in case makedirs fs (os_path_join save_dir [subfolder']) of
           Inl e \<Rightarrow> (fs, Inl e)
         | Inr fs1 \<Rightarrow>
             (let save_path = os_path_join save_dir [subfolder', filename]
              in case omegaconf_save fs1 config save_path of
                   Inl e \<Rightarrow> (fs1, Inl e)
                 | Inr fs2 \<Rightarrow> (fs2, Inr save_path)))"

text \<open>
  \<^verbatim>\<open>load\<close>. Its collaborators are not among the sources and are parameters:
  \<^verbatim>\<open>DEFAULT_MODEL_CONFIG_FILE\<close>; the hub, which answers a download of (repository,
  subfolder, file name) with the document of the downloaded file, or fails; and the
  registry behind \<^verbatim>\<open>get_module_config_class\<close>, which maps the two discriminators to a
  class, or fails. The outcome lists the downloads the call asked for, in order.
\<close>

type_synonym hub = "string \<times> string \<times> string \<Rightarrow> pydict option"
type_synonym registry = "val \<Rightarrow> val \<Rightarrow> pyclass option"

definition config_path :: "string \<Rightarrow> string \<Rightarrow> string option \<Rightarrow> string option \<Rightarrow> string" where
  "config_path default_file hub_or_local_path filename subfolder =
     os_path_join hub_or_local_path [or_str subfolder [], or_str filename default_file]"

definition load ::
  "string \<Rightarrow> registry \<Rightarrow> hub \<Rightarrow> filesystem \<Rightarrow> string \<Rightarrow> string option \<Rightarrow> string option \<Rightarrow> pydict
     \<Rightarrow> (string \<times> string \<times> string) list \<times> (py_error + pyobj)" where
  "load default_file get_module_config_class hf_hub_download fs
        hub_or_local_path filename subfolder kwargs =
     (let filename' = or_str filename default_file;
          subfolder' = or_str subfolder [];
          path = os_path_join hub_or_local_path [subfolder', filename'];
          is_local = isfile fs path
      in if isdir fs hub_or_local_path \<and> \<not> is_local then ([], Inl EnvironmentError)
         else
           (let (downloads, document) =
                  (if \<not> is_local
                   then ([(hub_or_local_path, subfolder', filename')],
                         case hf_hub_download (hub_or_local_path, subfolder', filename') of
                           None \<Rightarrow> Inl TransportError
                         | Some config \<Rightarrow> Inr config)
                   else ([], omegaconf_load fs path))
            in (downloads,
                case document of
                  Inl e \<Rightarrow> Inl e
                | Inr config \<Rightarrow>
                    (case dict_getitem config ''name'' of
                       Inl e \<Rightarrow> Inl e
                     | Inr n \<Rightarrow>
                         (case dict_getitem config ''config_type'' of
                            Inl e \<Rightarrow> Inl e
                          | Inr t \<Rightarrow>
                              (case get_module_config_class n t of
                                 None \<Rightarrow> Inl RegistryLookupError
                               | Some config_cls \<Rightarrow>
                                   if ''strict'' \<in> set (map fst kwargs) then Inl TypeError
                                   else snd (from_dict config_cls config
                                               ((''strict'', VBool False) # kwargs))))))))"

section \<open>Predicates used by the statements\<close>

text \<open>
  A value holds no nested configuration when no dataclass instance occurs in it, at any
  depth. A name is a property of a class when attribute lookup on the type finds a
  property (one of the two derived properties of \<^verbatim>\<open>Config\<close>, or an interpreter slot).
\<close>

fun no_nested_config :: "val \<Rightarrow> bool" where
  "no_nested_config (VObj c d) = False"
| "no_nested_config (VList vs) = list_all no_nested_config vs"
| "no_nested_config (VDict d) = list_all (\<lambda>kv. no_nested_config (snd kv)) d"
| "no_nested_config v = True"

definition is_property :: "pyclass \<Rightarrow> string \<Rightarrow> bool" where
  "is_property cls k = (case class_attr cls k of Some (Property g) \<Rightarrow> True | _ \<Rightarrow> False)"

section \<open>Auxiliary facts\<close>

lemma asdict_inner_plain: "no_nested_config v \<Longrightarrow> asdict_inner v = v"
proof (induction v rule: asdict_inner.induct)
  case (2 vs)
  then show ?case by (simp add: list_all_iff map_idI)
next
  case (3 d)
  then have "\<And>x. x \<in> set d \<Longrightarrow> (case x of (k, v) \<Rightarrow> (k, asdict_inner v)) = x"
    by (auto simp: list_all_iff)
  then show ?case by (simp add: map_idI)
qed simp_all


lemma map_of_keyed_map:
  "map_of (map (\<lambda>(f, x). (f, g f x)) xs) k = map_option (g k) (map_of xs k)"
  by (induction xs) auto

lemma map_of_field_items:
  "map_of (field_items c d) k =
     map_option
       (\<lambda>dflt. case map_of d k of
                 Some v \<Rightarrow> v
               | None \<Rightarrow>
                   (case class_attr c k of
                      Some (Field x) \<Rightarrow> x
                    | Some (ClassVar x) \<Rightarrow> x
                    | Some Method \<Rightarrow> VOpaque k
                    | _ \<Rightarrow> dflt))
       (map_of (dataclass_fields c) k)"
  unfolding field_items_def by (rule map_of_keyed_map)

lemma map_of_dict:
  "map_of (dict c) k = map_option asdict_inner (map_of (field_items (icls c) (idict c)) k)"
  unfolding dict_def by (rule map_of_keyed_map [where g = "\<lambda>f. asdict_inner"])

lemma map_of_dict_stored:
  "k \<in> set (map fst (dataclass_fields (icls c))) \<Longrightarrow> map_of (idict c) k = Some v \<Longrightarrow>
   map_of (dict c) k = Some (asdict_inner v)"
proof -
  assume "k \<in> set (map fst (dataclass_fields (icls c)))" and v: "map_of (idict c) k = Some v"
  then obtain dflt where "map_of (dataclass_fields (icls c)) k = Some dflt"
    by (cases "map_of (dataclass_fields (icls c)) k") (auto simp: map_of_eq_None_iff)
  with v show ?thesis
    by (simp add: map_of_dict map_of_field_items)
qed

lemma map_of_dict_undeclared:
  "k \<notin> set (map fst (dataclass_fields (icls c))) \<Longrightarrow> map_of (dict c) k = None"
  by (simp add: map_of_dict map_of_field_items map_of_eq_None_iff)

lemma dataclass_fields_Config: "dataclass_fields Config = []"
  by (simp add: Config_def dict_update_def)

lemma dataclass_fields_TrainerConfig:
  "dataclass_fields TrainerConfig =
     [(''task'', VNone), (''device'', VStr ''cuda''), (''init_weights_from'', VNone),
      (''dataset_config'', VNone), (''num_dataloader_workers'', VInt 0), (''seed'', VInt 42),
      (''optimizer'', VNone), (''batch_size'', VNone), (''use_amp'', VBool False),
      (''metrics'', VNone), (''num_epochs'', VNone), (''save_freq'', VInt 1),
      (''checkpoints_dir'', VNone), (''log_dir'', VNone)]"
  by (simp add: TrainerConfig_def dataclass_fields_Config dict_update_def)

lemma dataclass_fields_DatasetConfig: "dataclass_fields DatasetConfig = [(''task'', VNone)]"
  by (simp add: DatasetConfig_def dataclass_fields_Config dict_update_def)

lemma TrainerConfig_class:
  "cname TrainerConfig = ''TrainerConfig''"
  "mro1_name TrainerConfig = ''Config''"
  "class_attr TrainerConfig ''name'' = Some (Property Name_getter)"
  "class_attr TrainerConfig ''config_type'' = Some (Property Config_type_getter)"
  by (simp_all add: TrainerConfig_def Config_def mro1_name_def)

lemma BPE_name_field:
  "class_attr (BPEConfig tc ttc) ''name'' = Some (Field (VStr ''bpe_tokenizer''))"
  "class_attr (BPETrainConfig ttc) ''name'' = Some (Field (VStr ''bpe_tokenizer''))"
  by (simp_all add: BPEConfig_def BPETrainConfig_def)

lemma dict_update_other_key:
  "k \<notin> set (map fst kw) \<Longrightarrow> map_of (dict_update d kw) k = map_of d k"
  unfolding dict_update_def
  by (induction kw arbitrary: d) (auto simp: update_conv')

lemma dict_update_keyword_wins:
  "distinct (map fst kw) \<Longrightarrow> (k, v) \<in> set kw \<Longrightarrow> map_of (dict_update d kw) k = Some v"
proof (induction kw arbitrary: d)
  case Nil
  then show ?case by simp
next
  case (Cons x kw)
  show ?case
  proof (cases "x = (k, v)")
    case True
    with Cons.prems have "k \<notin> set (map fst kw)"
      by auto
    then have "map_of (dict_update (AList.update k v d) kw) k = map_of (AList.update k v d) k"
      by (rule dict_update_other_key)
    with True show ?thesis
      by (simp add: dict_update_def update_conv')
  next
    case False
    with Cons.prems have "distinct (map fst kw)" "(k, v) \<in> set kw"
      by auto
    then have "map_of (dict_update (AList.update (fst x) (snd x) d) kw) k = Some v"
      by (rule Cons.IH)
    then show ?thesis
      by (simp add: dict_update_def case_prod_beta)
  qed
qed


lemma class_annotations_TrainerConfig:
  "class_annotations TrainerConfig = Some (map fst (dataclass_fields TrainerConfig))"
  unfolding dataclass_fields_TrainerConfig by (simp add: TrainerConfig_def)

lemma TrainerConfig_not_property:
  "\<not> is_property TrainerConfig ''device''"
  "\<not> is_property TrainerConfig ''extra''"
  "is_property TrainerConfig ''name''"
  by (simp_all add: is_property_def TrainerConfig_def Config_def object_body_def)

lemma dataclass_fields_ModelConfig: "dataclass_fields ModelConfig = []"
  by (simp add: ModelConfig_def dataclass_fields_Config dict_update_def)

lemma hasattr_ModelConfig:
  "hasattr ModelConfig ''name''" "hasattr ModelConfig ''config_type''"
  "\<not> hasattr ModelConfig ''strict''"
  by (simp_all add: hasattr_def ModelConfig_def Config_def object_body_def type_attrs_def)

lemma TrainerConfig_null_device_dict:
  "dict \<lparr>icls = TrainerConfig,
         idict = AList.update ''device'' VNone (dataclass_fields TrainerConfig)\<rparr>
     = [(''task'', VNone), (''device'', VNone), (''init_weights_from'', VNone),
        (''dataset_config'', VNone), (''num_dataloader_workers'', VInt 0), (''seed'', VInt 42),
        (''optimizer'', VNone), (''batch_size'', VNone), (''use_amp'', VBool False),
        (''metrics'', VNone), (''num_epochs'', VNone), (''save_freq'', VInt 1),
        (''checkpoints_dir'', VNone), (''log_dir'', VNone)]"
  by (simp add: dict_def field_items_def dataclass_fields_TrainerConfig)

lemma distinct_dict_update:
  "distinct (map fst d) \<Longrightarrow> distinct (map fst (dict_update d kw))"
  unfolding dict_update_def
  by (induction kw arbitrary: d) (auto simp: distinct_update)


lemma distinct_dataclass_fields: "distinct (map fst (dataclass_fields c))"
proof (induction c rule: dataclass_fields.induct)
  case (1 n b ms)
  have "distinct (map fst (case b of None \<Rightarrow> [] | Some p \<Rightarrow> dataclass_fields p))"
    using "1.IH" by (cases b) simp_all
  then show ?case
    unfolding dataclass_fields.simps by (rule distinct_dict_update)
qed








lemma rebuild_from_lookup:
  "distinct (map fst xs) \<Longrightarrow> map fst xs = map fst ys \<Longrightarrow>
   map (\<lambda>(f, d). (f, case map_of xs f of Some v \<Rightarrow> v | None \<Rightarrow> h f d)) ys = xs"
proof (induction xs arbitrary: ys)
  case Nil
  then show ?case by simp
next
  case (Cons x xs)
  then obtain y ys' where ys: "ys = y # ys'" "fst y = fst x" "map fst xs = map fst ys'"
    by (cases ys) auto
  have "map (\<lambda>(f, d). (f, case map_of (x # xs) f of Some v \<Rightarrow> v | None \<Rightarrow> h f d)) ys'
      = map (\<lambda>(f, d). (f, case map_of xs f of Some v \<Rightarrow> v | None \<Rightarrow> h f d)) ys'"
  proof (rule map_cong)
    fix z
    assume "z \<in> set ys'"
    then have "fst z \<in> set (map fst ys')"
      by simp
    then have "fst z \<in> set (map fst xs)"
      by (simp only: ys(3))
    moreover from Cons.prems(1) have "fst x \<notin> set (map fst xs)"
      by simp
    ultimately have "fst z \<noteq> fst x"
      by force
    then show "(case z of (f, d) \<Rightarrow> (f, case map_of (x # xs) f of Some v \<Rightarrow> v | None \<Rightarrow> h f d))
        = (case z of (f, d) \<Rightarrow> (f, case map_of xs f of Some v \<Rightarrow> v | None \<Rightarrow> h f d))"
      by (simp add: case_prod_beta)
  qed simp
  also have "\<dots> = xs"
    using Cons.prems ys by (intro Cons.IH) simp_all
  finally have tl: "map (\<lambda>(f, d). (f, case map_of (x # xs) f of Some v \<Rightarrow> v | None \<Rightarrow> h f d)) ys' = xs" .
  have hd: "(case y of (f, d) \<Rightarrow> (f, case map_of (x # xs) f of Some v \<Rightarrow> v | None \<Rightarrow> h f d)) = x"
    using ys(2) by (cases x; cases y) simp
  show ?case
    by (simp only: ys(1) list.map hd tl)
qed


lemma field_items_complete:
  "map fst d = map fst (dataclass_fields c) \<Longrightarrow> field_items c d = d"
  unfolding field_items_def
  using distinct_dataclass_fields [of c]
  by (intro rebuild_from_lookup
        [where h = "\<lambda>f dflt. case class_attr c f of
                       Some (Field x) \<Rightarrow> x
                     | Some (ClassVar x) \<Rightarrow> x
                     | Some Method \<Rightarrow> VOpaque f
                     | _ \<Rightarrow> dflt"]) simp_all










lemma os_path_join_last:
  "os_path_join a [s, f] = os_path_join (os_path_join a [s]) [f]"
  by simp

lemma os_path_join_plain_name:
  "f \<noteq> [] \<Longrightarrow> CHR ''/'' \<notin> set f \<Longrightarrow> os_path_join a [f] \<noteq> a"
  by (cases f) auto

lemma isabs_os_path_join1:
  "isabs (os_path_join a [b]) \<longleftrightarrow> isabs a \<or> isabs b"
  by (cases a; cases b) (auto simp: isabs_def)

lemma isabs_os_path_join2:
  "isabs (os_path_join a [s, f]) \<longleftrightarrow> isabs a \<or> isabs s \<or> isabs f"
  unfolding os_path_join_last by (simp only: isabs_os_path_join1 disj_assoc)

lemma makedirs_Inr:
  "makedirs fs p = Inr fs1 \<Longrightarrow>
   p \<noteq> [] \<and> isdir fs1 p \<and> files fs1 = files fs \<and> set (dirs fs1) = insert p (set (dirs fs))"
  by (auto simp: makedirs_def isdir_def split: if_splits)

lemma makedirs_existing:
  "p \<noteq> [] \<Longrightarrow> isdir fs p \<Longrightarrow> makedirs fs p = Inr fs"
  by (simp add: makedirs_def)

lemma makedirs_free:
  "p \<noteq> [] \<Longrightarrow> \<not> isfile fs p \<Longrightarrow> \<exists>fs1. makedirs fs p = Inr fs1"
  by (simp add: makedirs_def)

lemma omegaconf_save_Inr:
  "omegaconf_save fs config p = Inr fs2 \<Longrightarrow>
   \<not> isdir fs p \<and> dirs fs2 = dirs fs \<and> fs2 = fs\<lparr>files := AList.update p config (files fs)\<rparr>"
  by (auto simp: omegaconf_save_def split: if_splits)

lemma save_Inr:
  "save c fs save_dir filename subfolder = (fs', Inr p) \<Longrightarrow>
   \<exists>fs1. makedirs fs (os_path_join save_dir [or_str subfolder []]) = Inr fs1
     \<and> omegaconf_save fs1 (filter (\<lambda>(k, v). v \<noteq> VNone) (dict c))
           (os_path_join save_dir [or_str subfolder [], filename]) = Inr fs'
     \<and> p = os_path_join save_dir [or_str subfolder [], filename]"
  unfolding save_def Let_def by (auto split: sum.splits simp del: os_path_join.simps)

lemma save_returns:
  "makedirs fs (os_path_join save_dir [or_str subfolder []]) = Inr fs1 \<Longrightarrow>
   omegaconf_save fs1 (filter (\<lambda>(k, v). v \<noteq> VNone) (dict c))
     (os_path_join save_dir [or_str subfolder [], filename]) = Inr fs2 \<Longrightarrow>
   save c fs save_dir filename subfolder
     = (fs2, Inr (os_path_join save_dir [or_str subfolder [], filename]))"
  unfolding save_def Let_def by (simp del: os_path_join.simps)

lemma TrainerConfig_default_dict:
  "dict \<lparr>icls = TrainerConfig, idict = dataclass_fields TrainerConfig\<rparr>
     = dataclass_fields TrainerConfig"
proof -
  have "field_items TrainerConfig (dataclass_fields TrainerConfig) = dataclass_fields TrainerConfig"
    by (rule field_items_complete) simp
  then show ?thesis
    by (simp add: dict_def) (simp add: dataclass_fields_TrainerConfig)
qed

section \<open>The category of a configuration type\<close>

text \<open>
  Claim C1. Two distinct types that directly extend \<^verbatim>\<open>ModelConfig\<close> should report the
  same category, the one of \<^verbatim>\<open>ModelConfig\<close>. In the source they report none:
  \<^verbatim>\<open>config_type\<close> finds the category of the parent, and then subscripts
  \<^verbatim>\<open>CONFIG_TYPES_MAPPING\<close> with the name of the type itself, which the mapping does not
  hold, so the property raises \<^verbatim>\<open>KeyError\<close> on both, while \<^verbatim>\<open>ModelConfig\<close> itself
  reports \<^verbatim>\<open>model\<close>.
\<close>

theorem config_type_category_subclass_raises:
  "mro1_name (PyClass ''BertLMConfig'' (Some ModelConfig) []) = ''ModelConfig''
   \<and> mro1_name (PyClass ''RobertaLMConfig'' (Some ModelConfig) []) = ''ModelConfig''
   \<and> config_type \<lparr>icls = PyClass ''BertLMConfig'' (Some ModelConfig) [], idict = []\<rparr>
       = ([], Inl KeyError)
   \<and> config_type \<lparr>icls = PyClass ''RobertaLMConfig'' (Some ModelConfig) [], idict = []\<rparr>
       = ([], Inl KeyError)
   \<and> config_type \<lparr>icls = ModelConfig, idict = []\<rparr> = ([], Inr ''model'')"
  by (simp add: config_type_def mro1_name_def Config_def ModelConfig_def
      CONFIG_TYPES_MAPPING_def lower_def lower_char_def)

section \<open>Building an instance with \<^verbatim>\<open>from_dict\<close>\<close>

text \<open>
  Claim C2. \<^verbatim>\<open>from_dict\<close> should drop every key that is not a declared field, and a
  strict mode should refuse such keys. The source keeps the keys that \<^verbatim>\<open>hasattr(cls, k)\<close>
  accepts, which are more than the fields: \<^verbatim>\<open>name\<close> and \<^verbatim>\<open>config_type\<close>, the two keys
  that \<^verbatim>\<open>load\<close> reads from every document before it calls \<^verbatim>\<open>from_dict\<close>, are properties
  of the class and no fields of \<^verbatim>\<open>ModelConfig\<close>, so they reach the constructor, which
  raises \<^verbatim>\<open>TypeError\<close>. The keyword \<^verbatim>\<open>strict\<close> selects nothing: it is merged into the
  mapping as one more key, and with \<^verbatim>\<open>strict=True\<close> an unknown key is dropped as before.
\<close>

theorem from_dict_attribute_key_raises:
  "''name'' \<notin> set (map fst (dataclass_fields ModelConfig))
   \<and> ''config_type'' \<notin> set (map fst (dataclass_fields ModelConfig))
   \<and> from_dict ModelConfig
         [(''name'', VStr ''bert_lm''), (''config_type'', VStr ''model'')]
         [(''strict'', VBool False)]
       = ([(''name'', VStr ''bert_lm''), (''config_type'', VStr ''model''), (''strict'', VBool False)],
          Inl TypeError)
   \<and> from_dict ModelConfig [(''bogus'', VInt 1)] [(''strict'', VBool True)]
       = ([(''bogus'', VInt 1), (''strict'', VBool True)], Inr \<lparr>icls = ModelConfig, idict = []\<rparr>)"
proof -
  have b: "\<not> hasattr ModelConfig ''bogus''"
    by (simp add: hasattr_def ModelConfig_def Config_def object_body_def type_attrs_def)
  show ?thesis
    by (simp add: from_dict_def dict_update_def hasattr_ModelConfig b dataclass_init_def
        dataclass_fields_ModelConfig)
qed

section \<open>Path resolution of \<^verbatim>\<open>load\<close>\<close>

text \<open>
  Claim C3. When the location is an existing local directory and the composed path
  (location, subfolder, file name) is not a file, \<^verbatim>\<open>load\<close> raises \<^verbatim>\<open>EnvironmentError\<close>
  and asks for no download. A download is asked for exactly when the composed path is
  not a local file and the location is not a local directory.
\<close>

theorem load_local_directory_missing_file:
  "(isdir fs loc \<and> \<not> isfile fs (config_path dflt loc filename subfolder) \<longrightarrow>
      load dflt reg hf fs loc filename subfolder kwargs = ([], Inl EnvironmentError))
   \<and> fst (load dflt reg hf fs loc filename subfolder kwargs) =
      (if \<not> isdir fs loc \<and> \<not> isfile fs (config_path dflt loc filename subfolder)
       then [(loc, or_str subfolder [], or_str filename dflt)] else [])"
  by (simp add: load_def config_path_def Let_def split: prod.splits)

theorem load_local_directory_missing_file_witness:
  "isdir \<lparr>dirs = [''models/bert''], files = []\<rparr> ''models/bert''
   \<and> \<not> isfile \<lparr>dirs = [''models/bert''], files = []\<rparr>
        (config_path ''model_config.yaml'' ''models/bert'' None None)
   \<and> load ''model_config.yaml'' (\<lambda>n t. None) (\<lambda>r. Some []) \<lparr>dirs = [''models/bert''], files = []\<rparr>
        ''models/bert'' None None [] = ([], Inl EnvironmentError)
   \<and> fst (load ''model_config.yaml'' (\<lambda>n t. None) (\<lambda>r. Some []) \<lparr>dirs = [''models/bert''], files = []\<rparr>
        ''hezarai/bert-base-fa'' None None []) = [(''hezarai/bert-base-fa'', [], ''model_config.yaml'')]"
proof -
  let ?fs = "\<lparr>dirs = [''models/bert''], files = []\<rparr>"
  have d: "isdir ?fs ''models/bert''"
    by (simp add: isdir_def)
  have f: "\<not> isfile ?fs (config_path ''model_config.yaml'' ''models/bert'' None None)"
    by (simp add: isfile_def)
  have nd: "\<not> isdir ?fs ''hezarai/bert-base-fa''"
    by (simp add: isdir_def)
  have nf: "\<not> isfile ?fs (config_path ''model_config.yaml'' ''hezarai/bert-base-fa'' None None)"
    by (simp add: isfile_def)
  from load_local_directory_missing_file
         [of ?fs "''models/bert''" "''model_config.yaml''" None None "\<lambda>n t. None" "\<lambda>r. Some []" "[]"]
       load_local_directory_missing_file
         [of ?fs "''hezarai/bert-base-fa''" "''model_config.yaml''" None None "\<lambda>n t. None" "\<lambda>r. Some []" "[]"]
       d f nd nf
  show ?thesis
    by (simp add: or_str_def)
qed

section \<open>Serialising and building again\<close>




section \<open>Saving and loading again\<close>

text \<open>
  Claim C5. \<^verbatim>\<open>save\<close> leaves the null fields out of the document, and loading the saved
  file should give such a field its declared default. The first half holds; the second
  does not, because the saved file cannot be loaded: \<^verbatim>\<open>save\<close> writes the dataclass fields
  only, and \<^verbatim>\<open>load\<close> subscripts the document with \<^verbatim>\<open>name\<close> and \<^verbatim>\<open>config_type\<close>, which
  are no fields of \<^verbatim>\<open>TrainerConfig\<close>. A \<^verbatim>\<open>TrainerConfig\<close> with \<^verbatim>\<open>device\<close> set to null is
  saved without \<^verbatim>\<open>device\<close>, and loading the file raises \<^verbatim>\<open>KeyError\<close>, whatever the
  registry holds.
\<close>

theorem load_after_save_raises:
  "save \<lparr>icls = TrainerConfig,
          idict = AList.update ''device'' VNone (dataclass_fields TrainerConfig)\<rparr>
        \<lparr>dirs = [], files = []\<rparr> ''out'' ''train_config.yaml'' None
     = (\<lparr>dirs = [''out/''],
         files = [(''out/train_config.yaml'',
                   [(''num_dataloader_workers'', VInt 0), (''seed'', VInt 42),
                    (''use_amp'', VBool False), (''save_freq'', VInt 1)])]\<rparr>,
        Inr ''out/train_config.yaml'')
   \<and> load ''model_config.yaml'' (\<lambda>n t. Some TrainerConfig) (\<lambda>r. None)
        \<lparr>dirs = [''out/''],
         files = [(''out/train_config.yaml'',
                   [(''num_dataloader_workers'', VInt 0), (''seed'', VInt 42),
                    (''use_amp'', VBool False), (''save_freq'', VInt 1)])]\<rparr>
        ''out'' (Some ''train_config.yaml'') None []
     = ([], Inl KeyError)"
  by (simp add: save_def load_def TrainerConfig_null_device_dict or_str_def makedirs_def
      omegaconf_save_def omegaconf_load_def isdir_def isfile_def dict_getitem_def Let_def)

section \<open>Patching an instance with \<^verbatim>\<open>update\<close>\<close>

text \<open>
  Claim C6. \<^verbatim>\<open>update\<close> should never raise, warn once for each key that is not a declared
  field and not at all for a declared field. The source tests a key against
  \<^verbatim>\<open>self.__annotations__\<close>. A type with no annotated name along its MRO, such as
  \<^verbatim>\<open>ModelConfig\<close>, has no such attribute: \<^verbatim>\<open>update\<close> raises \<^verbatim>\<open>AttributeError\<close> at the
  first key and sets nothing. And \<^verbatim>\<open>__annotations__\<close> holds the names annotated in one
  class body only: on a subclass of \<^verbatim>\<open>TrainerConfig\<close> that annotates a field of its own,
  the inherited field \<^verbatim>\<open>device\<close> is a declared field and is warned about.
\<close>

theorem update_annotations_lookup_breaks:
  "update \<lparr>icls = ModelConfig, idict = []\<rparr> [(''a'', VInt 1)] []
     = \<lparr>d_after = [(''a'', VInt 1)],
        self_after = \<lparr>icls = ModelConfig, idict = []\<rparr>,
        logged = [],
        raised = Some AttributeError\<rparr>
   \<and> ''device'' \<in> set (map fst (dataclass_fields
          (PyClass ''MyTrainerConfig'' (Some TrainerConfig) [(''x'', Field (VInt 0))])))
   \<and> logged (update
          \<lparr>icls = PyClass ''MyTrainerConfig'' (Some TrainerConfig) [(''x'', Field (VInt 0))],
           idict = dataclass_fields
             (PyClass ''MyTrainerConfig'' (Some TrainerConfig) [(''x'', Field (VInt 0))])\<rparr>
          [(''device'', VStr ''cpu'')] [])
       = [Not_config_parameter ''MyTrainerConfig'' ''device'']"
proof -
  have a: "update \<lparr>icls = ModelConfig, idict = []\<rparr> [(''a'', VInt 1)] []
     = \<lparr>d_after = [(''a'', VInt 1)],
        self_after = \<lparr>icls = ModelConfig, idict = []\<rparr>,
        logged = [],
        raised = Some AttributeError\<rparr>"
    by (simp add: update_def dict_update_def self_annotations_def ModelConfig_def Config_def)
  define T where "T = PyClass ''MyTrainerConfig'' (Some TrainerConfig) [(''x'', Field (VInt 0))]"
  define self where "self = \<lparr>icls = T, idict = dataclass_fields T\<rparr>"
  have f: "dataclass_fields T = dataclass_fields TrainerConfig @ [(''x'', VInt 0)]"
    by (simp add: T_def dataclass_fields_TrainerConfig dict_update_def)
  have an: "class_annotations T = Some [''x'']"
    by (simp add: T_def)
  have cd: "class_attr TrainerConfig ''device'' = Some (Field (VStr ''cuda''))"
    by (simp add: TrainerConfig_def)
  have ca: "class_attr T ''device'' = Some (Field (VStr ''cuda''))"
    by (simp add: T_def cd)
  have n: "cname T = ''MyTrainerConfig''"
    by (simp add: T_def)
  have sa: "self_annotations self = Inr [''x'']"
    by (simp add: self_annotations_def self_def f dataclass_fields_TrainerConfig an)
  have st: "setattr self ''device'' (VStr ''cpu'')
      = Inr (self\<lparr>idict := AList.update ''device'' (VStr ''cpu'') (idict self)\<rparr>)"
    by (simp add: setattr_def self_def ca)
  have ic: "icls self = T"
    by (simp add: self_def)
  have b: "logged (update self [(''device'', VStr ''cpu'')] [])
       = [Not_config_parameter ''MyTrainerConfig'' ''device'']"
    by (simp add: update_def dict_update_def sa st ic n)
  have c: "''device'' \<in> set (map fst (dataclass_fields T))"
    by (simp add: f dataclass_fields_TrainerConfig)
  from a b c show ?thesis
    unfolding self_def T_def by simp
qed

section \<open>The name of a configuration\<close>

text \<open>
  Claim C7, as amended. For a type on which attribute lookup finds the property of
  \<^verbatim>\<open>Config\<close>, \<^verbatim>\<open>c.name\<close> is computed from the class name (\<^verbatim>\<open>Config\<close> removed, snake
  case, \<^verbatim>\<open>base\<close> when nothing is left), whatever the instance dictionary holds, and the
  name cannot be assigned. \<^verbatim>\<open>BPEConfig\<close> and \<^verbatim>\<open>BPETrainConfig\<close> declare \<^verbatim>\<open>name\<close> as a
  dataclass field: for them \<^verbatim>\<open>c.name\<close> is the value stored in the instance, and it can
  be assigned.
\<close>

theorem name_derived_unless_declared:
  "(class_attr (icls c) ''name'' = Some (Property Name_getter) \<longrightarrow>
      getattr sc c ''name'' = ([], Inr (VStr (name sc c)))
      \<and> name sc c =
          (if sc (str_replace ''Config'' [] (cname (icls c))) = [] then ''base''
           else sc (str_replace ''Config'' [] (cname (icls c))))
      \<and> setattr c ''name'' v = Inl AttributeError)
   \<and> (icls c = BPEConfig tc ttc \<or> icls c = BPETrainConfig ttc \<longrightarrow>
      getattr sc c ''name'' =
        ([], Inr (case map_of (idict c) ''name'' of Some s \<Rightarrow> s | None \<Rightarrow> VStr ''bpe_tokenizer''))
      \<and> setattr c ''name'' v = Inr (c\<lparr>idict := AList.update ''name'' v (idict c)\<rparr>))"
  by (auto simp: getattr_def name_def Let_def setattr_def BPE_name_field split: option.splits)

theorem name_derived_unless_declared_witness:
  "class_attr TrainerConfig ''name'' = Some (Property Name_getter)
   \<and> getattr lower \<lparr>icls = TrainerConfig, idict = dataclass_fields TrainerConfig\<rparr> ''name''
       = ([], Inr (VStr ''trainer''))
   \<and> getattr lower \<lparr>icls = Config, idict = []\<rparr> ''name'' = ([], Inr (VStr ''base''))
   \<and> setattr \<lparr>icls = TrainerConfig, idict = dataclass_fields TrainerConfig\<rparr> ''name'' (VStr ''x'')
       = Inl AttributeError
   \<and> getattr lower \<lparr>icls = BPETrainConfig Config, idict = [(''name'', VStr ''x'')]\<rparr> ''name''
       = ([], Inr (VStr ''x''))"
proof -
  have c: "class_attr Config ''name'' = Some (Property Name_getter)" "cname Config = ''Config''"
    by (simp_all add: Config_def)
  from name_derived_unless_declared
         [of "\<lparr>icls = TrainerConfig, idict = dataclass_fields TrainerConfig\<rparr>" lower "VStr ''x''" Config Config]
       name_derived_unless_declared
         [of "\<lparr>icls = Config, idict = []\<rparr>" lower "VStr ''x''" Config Config]
       name_derived_unless_declared
         [of "\<lparr>icls = BPETrainConfig Config, idict = [(''name'', VStr ''x'')]\<rparr>" lower "VStr ''x''" Config Config]
       TrainerConfig_class c
  show ?thesis
    by (simp add: lower_def lower_char_def)
qed

text \<open>
  The claim as stated fails on \<^verbatim>\<open>BPEConfig\<close>: two instances of the class carry different
  names, and neither is the name computed from the class name.
\<close>

theorem name_stored_field_counterexample:
  "getattr lower
     \<lparr>icls = BPEConfig PreprocessorConfig Config,
      idict = AList.update ''name'' (VStr ''my_tokenizer'')
                (dataclass_fields (BPEConfig PreprocessorConfig Config))\<rparr> ''name''
     = ([], Inr (VStr ''my_tokenizer''))
   \<and> getattr lower
     \<lparr>icls = BPEConfig PreprocessorConfig Config,
      idict = AList.update ''name'' (VStr ''other'')
                (dataclass_fields (BPEConfig PreprocessorConfig Config))\<rparr> ''name''
     = ([], Inr (VStr ''other''))
   \<and> name lower
     \<lparr>icls = BPEConfig PreprocessorConfig Config,
      idict = AList.update ''name'' (VStr ''my_tokenizer'')
                (dataclass_fields (BPEConfig PreprocessorConfig Config))\<rparr> = ''bpe''"
proof -
  have n: "cname (BPEConfig PreprocessorConfig Config) = ''BPEConfig''"
    by (simp add: BPEConfig_def)
  show ?thesis
    by (simp add: getattr_def BPE_name_field update_conv' name_def n lower_def lower_char_def)
qed

section \<open>Saving to a directory\<close>

text \<open>
  Claim C8, as amended. The file system of the model records which paths are
  directories and which are files, and compares paths as written; it does not follow
  the hierarchy, so the statement is about a plain file name, whose parent is the
  directory that \<^verbatim>\<open>save\<close> has just made sure of.

  Whenever \<^verbatim>\<open>save\<close> returns, it returns the path joined from the directory, the
  subfolder and the file name; the joined directory exists afterwards, the file at the
  returned path holds the document (the fields that are not null), and a second
  \<^verbatim>\<open>save\<close> with the same arguments returns the same path and changes nothing. It does
  return when the file name is plain, the joined directory path is not empty and not a
  file, and the joined file path is not a directory. The returned path is the joined
  path as it is: it is absolute only when the directory, the subfolder or the file name
  is.
\<close>

theorem save_writes_joined_path:
  "(save c fs save_dir filename subfolder = (fs', Inr p) \<longrightarrow>
      p = os_path_join save_dir [or_str subfolder [], filename]
      \<and> isdir fs' (os_path_join save_dir [or_str subfolder []])
      \<and> omegaconf_load fs' p = Inr (filter (\<lambda>(k, v). v \<noteq> VNone) (dict c))
      \<and> save c fs' save_dir filename subfolder = (fs', Inr p))
   \<and> (filename \<noteq> [] \<and> CHR ''/'' \<notin> set filename
      \<and> os_path_join save_dir [or_str subfolder []] \<noteq> []
      \<and> \<not> isfile fs (os_path_join save_dir [or_str subfolder []])
      \<and> \<not> isdir fs (os_path_join save_dir [or_str subfolder [], filename]) \<longrightarrow>
      (\<exists>fs1. save c fs save_dir filename subfolder
               = (fs1, Inr (os_path_join save_dir [or_str subfolder [], filename]))))
   \<and> (isabs (os_path_join save_dir [or_str subfolder [], filename])
        \<longleftrightarrow> isabs save_dir \<or> isabs (or_str subfolder []) \<or> isabs filename)"
proof -
  let ?D = "os_path_join save_dir [or_str subfolder []]"
  let ?P = "os_path_join save_dir [or_str subfolder [], filename]"
  let ?config = "filter (\<lambda>(k, v). v \<noteq> VNone) (dict c)"
  have a: "p = ?P \<and> isdir fs' ?D \<and> omegaconf_load fs' p = Inr ?config
           \<and> save c fs' save_dir filename subfolder = (fs', Inr p)"
    if s: "save c fs save_dir filename subfolder = (fs', Inr p)"
  proof -
    from save_Inr [OF s] obtain fs1 where
      m: "makedirs fs ?D = Inr fs1" and w: "omegaconf_save fs1 ?config ?P = Inr fs'" and p: "p = ?P"
      by blast
    from makedirs_Inr [OF m] have d: "?D \<noteq> []" "isdir fs1 ?D"
      by blast+
    from omegaconf_save_Inr [OF w]
    have f: "\<not> isdir fs1 ?P" "dirs fs' = dirs fs1" "fs' = fs1\<lparr>files := AList.update ?P ?config (files fs1)\<rparr>"
      by blast+
    have d': "isdir fs' ?D"
      using d(2) f(2) by (simp add: isdir_def del: os_path_join.simps)
    have l: "omegaconf_load fs' ?P = Inr ?config"
      by (simp add: omegaconf_load_def f(3) update_conv' del: os_path_join.simps)
    have m': "makedirs fs' ?D = Inr fs'"
      using d(1) d' by (rule makedirs_existing)
    have "\<not> isdir fs' ?P"
      using f(1,2) by (simp add: isdir_def del: os_path_join.simps)
    then have w': "omegaconf_save fs' ?config ?P = Inr fs'"
      by (simp add: omegaconf_save_def f(3) del: os_path_join.simps)
    have "save c fs' save_dir filename subfolder = (fs', Inr ?P)"
      using m' w' by (rule save_returns)
    with p d' l show ?thesis
      by (simp del: os_path_join.simps)
  qed
  have b: "\<exists>fs2. save c fs save_dir filename subfolder = (fs2, Inr ?P)"
    if n: "filename \<noteq> []" "CHR ''/'' \<notin> set filename" and d: "?D \<noteq> []" "\<not> isfile fs ?D"
      and f: "\<not> isdir fs ?P"
  proof -
    from makedirs_free [OF d] obtain fs1 where m: "makedirs fs ?D = Inr fs1"
      by blast
    have "?P \<noteq> ?D"
      unfolding os_path_join_last using n by (rule os_path_join_plain_name)
    with f makedirs_Inr [OF m] have "\<not> isdir fs1 ?P"
      by (simp add: isdir_def del: os_path_join.simps)
    then have "omegaconf_save fs1 ?config ?P = Inr (fs1\<lparr>files := AList.update ?P ?config (files fs1)\<rparr>)"
      by (simp add: omegaconf_save_def del: os_path_join.simps)
    with m have "save c fs save_dir filename subfolder
        = (fs1\<lparr>files := AList.update ?P ?config (files fs1)\<rparr>, Inr ?P)"
      by (rule save_returns)
    then show ?thesis
      by blast
  qed
  from a b isabs_os_path_join2 [of save_dir "or_str subfolder []" filename] show ?thesis
    by blast
qed

section \<open>Subscripting an instance\<close>

text \<open>
  Claim C9, as amended. \<^verbatim>\<open>c[k]\<close> is the entry of \<^verbatim>\<open>c.dict()\<close>: for a declared field it
  is the stored value as \<^verbatim>\<open>asdict\<close> converts it, which is the value itself when it holds
  no nested configuration; for any other key it raises \<^verbatim>\<open>AttributeError\<close>. So
  \<^verbatim>\<open>c["name"]\<close> and \<^verbatim>\<open>c["config_type"]\<close> raise on a type that does not declare them as
  fields, while \<^verbatim>\<open>c.name\<close> returns the derived name, and \<^verbatim>\<open>c.config_type\<close> returns a
  category when the direct parent of the type is \<^verbatim>\<open>Config\<close>.
\<close>

theorem getitem_declared_fields:
  "(k \<in> set (map fst (dataclass_fields (icls c))) \<and> map_of (idict c) k = Some v \<longrightarrow>
      getitem c k = Inr (asdict_inner v) \<and> (no_nested_config v \<longrightarrow> getitem c k = Inr v))
   \<and> (k \<notin> set (map fst (dataclass_fields (icls c))) \<longrightarrow> getitem c k = Inl AttributeError)
   \<and> (''name'' \<notin> set (map fst (dataclass_fields (icls c)))
        \<and> class_attr (icls c) ''name'' = Some (Property Name_getter) \<longrightarrow>
      getitem c ''name'' = Inl AttributeError
        \<and> getattr sc c ''name'' = ([], Inr (VStr (name sc c))))
   \<and> (''config_type'' \<notin> set (map fst (dataclass_fields (icls c)))
        \<and> class_attr (icls c) ''config_type'' = Some (Property Config_type_getter)
        \<and> mro1_name (icls c) = ''Config'' \<longrightarrow>
      getitem c ''config_type'' = Inl AttributeError
        \<and> (\<exists>t. snd (getattr sc c ''config_type'') = Inr (VStr t)))"
proof -
  have g: "getitem c j = (case map_of (dict c) j of Some v \<Rightarrow> Inr v | None \<Rightarrow> Inl AttributeError)" for j
    by (simp add: getitem_def dict_getitem_def split: option.splits)
  have s: "k \<in> set (map fst (dataclass_fields (icls c))) \<Longrightarrow> map_of (idict c) k = Some v \<Longrightarrow>
           getitem c k = Inr (asdict_inner v)"
    by (simp add: g map_of_dict_stored)
  have u: "j \<notin> set (map fst (dataclass_fields (icls c))) \<Longrightarrow> getitem c j = Inl AttributeError" for j
    by (simp add: g map_of_dict_undeclared)
  have t: "mro1_name (icls c) = ''Config'' \<Longrightarrow> \<exists>t. snd (config_type c) = Inr t"
    by (auto simp: config_type_def Let_def CONFIG_TYPES_MAPPING_def split: option.splits)
  have ct: "class_attr (icls c) ''config_type'' = Some (Property Config_type_getter) \<Longrightarrow>
            mro1_name (icls c) = ''Config'' \<Longrightarrow> \<exists>t. snd (getattr sc c ''config_type'') = Inr (VStr t)"
    using t by (auto simp: getattr_def split: prod.splits)
  have n: "class_attr (icls c) ''name'' = Some (Property Name_getter) \<Longrightarrow>
           getattr sc c ''name'' = ([], Inr (VStr (name sc c)))"
    by (simp add: getattr_def)
  show ?thesis
    using s u [of k] u [of "''name''"] u [of "''config_type''"] ct n
    by (simp add: asdict_inner_plain)
qed

theorem getitem_declared_fields_witness:
  "''device'' \<in> set (map fst (dataclass_fields TrainerConfig))
   \<and> getitem \<lparr>icls = TrainerConfig, idict = dataclass_fields TrainerConfig\<rparr> ''device''
       = Inr (VStr ''cuda'')
   \<and> getitem \<lparr>icls = TrainerConfig, idict = dataclass_fields TrainerConfig\<rparr> ''vocab_size''
       = Inl AttributeError
   \<and> getitem \<lparr>icls = TrainerConfig, idict = dataclass_fields TrainerConfig\<rparr> ''name''
       = Inl AttributeError
   \<and> getattr lower \<lparr>icls = TrainerConfig, idict = dataclass_fields TrainerConfig\<rparr> ''name''
       = ([], Inr (VStr ''trainer''))
   \<and> getitem \<lparr>icls = TrainerConfig, idict = dataclass_fields TrainerConfig\<rparr> ''config_type''
       = Inl AttributeError
   \<and> snd (getattr lower \<lparr>icls = TrainerConfig, idict = dataclass_fields TrainerConfig\<rparr>
            ''config_type'')
       = Inr (VStr ''trainer'')"
proof -
  let ?c = "\<lparr>icls = TrainerConfig, idict = dataclass_fields TrainerConfig\<rparr>"
  have n: "name lower ?c = ''trainer''"
    by (simp add: name_def TrainerConfig_class lower_def lower_char_def)
  have t: "snd (getattr lower ?c ''config_type'') = Inr (VStr ''trainer'')"
    by (simp add: getattr_def config_type_def TrainerConfig_class CONFIG_TYPES_MAPPING_def
        lower_def lower_char_def)
  from getitem_declared_fields [of "''device''" ?c "VStr ''cuda''" lower]
       getitem_declared_fields [of "''vocab_size''" ?c VNone lower]
       TrainerConfig_class n t
  show ?thesis
    by (simp add: dataclass_fields_TrainerConfig)
qed

text \<open>
  The claim as stated fails where a field holds a nested configuration: the subscript
  returns a plain dictionary, not the value of the field.
\<close>

theorem getitem_nested_config_counterexample:
  "map_of (idict \<lparr>icls = TrainerConfig,
                 idict = AList.update ''dataset_config''
                           (VObj DatasetConfig [(''task'', VStr ''text_classification'')])
                           (dataclass_fields TrainerConfig)\<rparr>) ''dataset_config''
     = Some (VObj DatasetConfig [(''task'', VStr ''text_classification'')])
   \<and> getitem \<lparr>icls = TrainerConfig,
               idict = AList.update ''dataset_config''
                         (VObj DatasetConfig [(''task'', VStr ''text_classification'')])
                         (dataclass_fields TrainerConfig)\<rparr> ''dataset_config''
     = Inr (VDict [(''task'', VStr ''text_classification'')])"
  by (simp add: getitem_def dict_getitem_def dict_def field_items_def
      dataclass_fields_TrainerConfig dataclass_fields_DatasetConfig)

section \<open>The caller's dictionary in \<^verbatim>\<open>update\<close>\<close>

text \<open>
  Claim C10. \<^verbatim>\<open>update(d, **kwargs)\<close> leaves the caller's dictionary as
  \<^verbatim>\<open>d.update(kwargs)\<close> makes it, whether or not the call goes on to raise: every
  keyword is in it with the keyword's value, and the other keys keep the value they had.
\<close>

theorem update_mutates_caller_dict:
  "d_after (update c d kwargs) = dict_update d kwargs
   \<and> (distinct (map fst kwargs) \<longrightarrow>
        (\<forall>(k, v) \<in> set kwargs. map_of (d_after (update c d kwargs)) k = Some v))
   \<and> (k \<notin> set (map fst kwargs) \<longrightarrow> map_of (d_after (update c d kwargs)) k = map_of d k)"
proof -
  have "d_after (update c d kwargs) = dict_update d kwargs"
    by (simp add: update_def Let_def split: prod.splits)
  then show ?thesis
    by (auto simp: dict_update_other_key dict_update_keyword_wins)
qed

theorem update_mutates_caller_dict_witness:
  "distinct (map fst [(''device'', VStr ''cpu''), (''seed'', VInt 7)])
   \<and> ''lr'' \<notin> set (map fst [(''device'', VStr ''cpu''), (''seed'', VInt 7)])
   \<and> d_after (update \<lparr>icls = TrainerConfig, idict = dataclass_fields TrainerConfig\<rparr>
        [(''lr'', VInt 1), (''device'', VStr ''cuda'')]
        [(''device'', VStr ''cpu''), (''seed'', VInt 7)])
     = [(''lr'', VInt 1), (''device'', VStr ''cpu''), (''seed'', VInt 7)]
   \<and> map_of (d_after (update \<lparr>icls = TrainerConfig, idict = dataclass_fields TrainerConfig\<rparr>
        [(''lr'', VInt 1), (''device'', VStr ''cuda'')]
        [(''device'', VStr ''cpu''), (''seed'', VInt 7)])) ''device'' = Some (VStr ''cpu'')
   \<and> map_of (d_after (update \<lparr>icls = TrainerConfig, idict = dataclass_fields TrainerConfig\<rparr>
        [(''lr'', VInt 1), (''device'', VStr ''cuda'')]
        [(''device'', VStr ''cpu''), (''seed'', VInt 7)])) ''lr'' = Some (VInt 1)"
  using update_mutates_caller_dict
          [of "\<lparr>icls = TrainerConfig, idict = dataclass_fields TrainerConfig\<rparr>"
              "[(''lr'', VInt 1), (''device'', VStr ''cuda'')]"
              "[(''device'', VStr ''cpu''), (''seed'', VInt 7)]" "''lr''"]
  by (simp add: dict_update_def)

end
